theory Spec2Isabelle
  imports Main
begin

section \<open>Errors and storage tables\<close>

text \<open>
  The models of \<^verbatim>\<open>bot/models/models.py\<close> raise \<^verbatim>\<open>FieldError\<close> and
  \<^verbatim>\<open>IntegrityError\<close> from their save hooks; the database raises
  \<^verbatim>\<open>IntegrityError\<close> when a primary key or a \<^verbatim>\<open>unique_together\<close>
  constraint is violated by an insert. Calling a method on the \<^verbatim>\<open>None\<close> that
  \<^verbatim>\<open>QuerySet.first()\<close> returns for a missing row raises \<^verbatim>\<open>AttributeError\<close>;
  an index outside a tuple raises \<^verbatim>\<open>IndexError\<close>, a call with too many or too few
  arguments \<^verbatim>\<open>TypeError\<close>.
  Every raise is a value: a call returns its outcome together with the stored state it
  leaves behind, so that a write made before a raise stays visible.
\<close>

datatype error = FieldError | IntegrityError | AttributeError | IndexError | TypeError

text \<open>
  A table with a generated integer primary key is a list of rows paired with their key.
  An insert stores the row under a key that no row of the table carries.
\<close>

type_synonym 'r table = "(nat \<times> 'r) list"

definition fresh_id :: "'r table \<Rightarrow> nat" where
  "fresh_id t = Suc (foldr max (map fst t) 0)"

definition execute_insert :: "'r \<Rightarrow> 'r table \<Rightarrow> nat \<times> 'r table" where
  "execute_insert r t = (fresh_id t, t @ [(fresh_id t, r)])"

definition execute_update :: "nat \<Rightarrow> 'r \<Rightarrow> 'r table \<Rightarrow> 'r table" where
  "execute_update i r t = map (\<lambda>(j, x). if j = i then (j, r) else (j, x)) t"

section \<open>ReminderActivations\<close>

record ReminderActivations =
  first_activation :: int
  second_activation :: int
  third_activation :: int
  fourth_activation :: int
  fifth_activation :: int

text \<open>The field defaults of the model: 720 minutes for the first activation, 0 for the rest.\<close>

definition ReminderActivations_defaults :: ReminderActivations where
  "ReminderActivations_defaults =
     \<lparr>first_activation = 720, second_activation = 0, third_activation = 0,
      fourth_activation = 0, fifth_activation = 0\<rparr>"

definition get_all_activations :: "ReminderActivations \<Rightarrow> int list" where
  "get_all_activations self =
     [first_activation self, second_activation self, third_activation self,
      fourth_activation self, fifth_activation self]"

text \<open>\<^verbatim>\<open>__getitem__\<close>: indexing the tuple of activations; an index outside it raises.\<close>

definition getitem :: "ReminderActivations \<Rightarrow> nat \<Rightarrow> int option" where
  "getitem self activation =
     (if activation < length (get_all_activations self)
      then Some (get_all_activations self ! activation) else None)"

definition check_valid_first_activation :: "ReminderActivations \<Rightarrow> error + unit" where
  "check_valid_first_activation self =
     (case getitem self 0 of
        None \<Rightarrow> Inl IndexError
      | Some a \<Rightarrow> if \<not> a > 0 then Inl FieldError else Inr ())"

fun activation_ranges_loop :: "int list \<Rightarrow> error + unit" where
  "activation_ranges_loop [] = Inr ()"
| "activation_ranges_loop (activation # rest) =
     (if activation < 0 then Inl FieldError else activation_ranges_loop rest)"

definition check_activation_ranges :: "ReminderActivations \<Rightarrow> error + unit" where
  "check_activation_ranges self = activation_ranges_loop (get_all_activations self)"

fun order_activations_loop :: "(int \<times> int) list \<Rightarrow> error + unit" where
  "order_activations_loop [] = Inr ()"
| "order_activations_loop (activation_pair # rest) =
     (if fst activation_pair < snd activation_pair then Inl FieldError
      else order_activations_loop rest)"

definition check_valid_order_activations :: "ReminderActivations \<Rightarrow> error + unit" where
  "check_valid_order_activations self =
     (let activations = get_all_activations self
      in order_activations_loop (zip activations (drop 1 activations)))"

text \<open>
  \<^verbatim>\<open>_post_save\<close> runs the three checks in order; the first one that raises ends it.
\<close>

definition ReminderActivations_post_save :: "ReminderActivations \<Rightarrow> error + unit" where
  "ReminderActivations_post_save self =
     (case check_valid_first_activation self of
        Inl e \<Rightarrow> Inl e
      | Inr _ \<Rightarrow>
          (case check_activation_ranges self of
             Inl e \<Rightarrow> Inl e
           | Inr _ \<Rightarrow> check_valid_order_activations self))"

text \<open>
  \<^verbatim>\<open>save()\<close> of the ORM base class calls \<^verbatim>\<open>_pre_save\<close>, executes the insert (for an
  instance without a primary key) or the update (for an instance that has one), and then
  calls \<^verbatim>\<open>_post_save\<close>. ReminderActivations overrides only the post-save hook, so its
  checks run once the row has been written. The outcome is the primary key of the row.
\<close>

definition ReminderActivations_save ::
  "nat option \<Rightarrow> ReminderActivations \<Rightarrow> ReminderActivations table
     \<Rightarrow> (error + nat) \<times> ReminderActivations table" where
  "ReminderActivations_save pk self t =
     (let (i, t') = (case pk of
                       None \<Rightarrow> execute_insert self t
                     | Some j \<Rightarrow> (j, execute_update j self t))
      in case ReminderActivations_post_save self of
           Inl e \<Rightarrow> (Inl e, t')
         | Inr _ \<Rightarrow> (Inr i, t'))"

text \<open>\<^verbatim>\<open>create_easy\<close> builds a new instance from the five values and saves it.\<close>

definition create_easy ::
  "int \<Rightarrow> int \<Rightarrow> int \<Rightarrow> int \<Rightarrow> int \<Rightarrow> ReminderActivations table
     \<Rightarrow> (error + nat) \<times> ReminderActivations table" where
  "create_easy a1 a2 a3 a4 a5 t =
     ReminderActivations_save None
       \<lparr>first_activation = a1, second_activation = a2, third_activation = a3,
        fourth_activation = a4, fifth_activation = a5\<rparr> t"

section \<open>Role\<close>

text \<open>
  A Role row: its primary key is the platform's role id (not generated), its guild is held
  by the guild's id. The field names \<^verbatim>\<open>id\<close> and \<^verbatim>\<open>guild\<close> carry the model's name as a
  suffix, since several models have fields of these names.
\<close>

record Role =
  id_Role :: int
  guild_Role :: int
  tier_level :: int
  tier_power :: int

text \<open>
  The query of \<^verbatim>\<open>_pre_save\<close>: is there a row with another id, the same guild, the same
  tier level and the same tier power?
\<close>

definition tier_slot_taken :: "Role \<Rightarrow> Role list \<Rightarrow> bool" where
  "tier_slot_taken self roles =
     list_ex (\<lambda>row. id_Role row \<noteq> id_Role self \<and> guild_Role row = guild_Role self
                    \<and> tier_level row = tier_level self \<and> tier_power row = tier_power self) roles"

definition Role_pre_save :: "Role \<Rightarrow> Role list \<Rightarrow> error + unit" where
  "Role_pre_save self roles =
     (if \<not> (0 \<le> tier_level self \<and> tier_level self \<le> 100) then Inl FieldError
      else if \<not> (0 \<le> tier_power self \<and> tier_power self \<le> 9) then Inl FieldError
      else if tier_level self \<noteq> 0 then
        (if tier_slot_taken self roles then Inl IntegrityError else Inr ())
      else Inr ())"

text \<open>
  \<^verbatim>\<open>save()\<close> of a Role: the hook first, then the write. An instance that was loaded from
  the table (\<open>saved_in_db\<close>) is written by an update of the row with its id; a new instance
  is inserted, which the database refuses when the id is already a primary key of the table.
\<close>

definition Role_save :: "bool \<Rightarrow> Role \<Rightarrow> Role list \<Rightarrow> (error + unit) \<times> Role list" where
  "Role_save saved_in_db self roles =
     (case Role_pre_save self roles of
        Inl e \<Rightarrow> (Inl e, roles)
      | Inr _ \<Rightarrow>
          if saved_in_db
          then (Inr (), map (\<lambda>row. if id_Role row = id_Role self then self else row) roles)
          else if id_Role self \<in> set (map id_Role roles) then (Inl IntegrityError, roles)
          else (Inr (), roles @ [self]))"

text \<open>The invariants of the Role table that the claims speak of.\<close>

definition tier_slots_unique :: "Role list \<Rightarrow> bool" where
  "tier_slots_unique roles =
     (\<forall>r1 \<in> set roles. \<forall>r2 \<in> set roles.
        id_Role r1 \<noteq> id_Role r2 \<and> guild_Role r1 = guild_Role r2 \<and> tier_level r1 \<noteq> 0
        \<and> tier_level r1 = tier_level r2 \<longrightarrow> tier_power r1 \<noteq> tier_power r2)"

definition tiers_in_range :: "Role list \<Rightarrow> bool" where
  "tiers_in_range roles =
     (\<forall>r \<in> set roles. 0 \<le> tier_level r \<and> tier_level r \<le> 100
                       \<and> 0 \<le> tier_power r \<and> tier_power r \<le> 9)"

section \<open>RolePacket and PacketRole\<close>

record RolePacket =
  id_RolePacket :: nat
  guild_RolePacket :: int
  name :: string
  custom_message :: string
  default_role_duration :: int

definition MAXIMUM_ROLES :: nat where
  "MAXIMUM_ROLES = 20"

text \<open>
  A PacketRole holds its role and its role packet as loaded rows; its own primary key is
  generated, so the table pairs every row with its key.
\<close>

record PacketRole =
  role :: Role
  role_packet :: RolePacket
  duration :: int

text \<open>\<^verbatim>\<open>role_packet.packet_roles.all().count()\<close>: the stored rows that point to the packet.\<close>

definition packet_roles_count :: "RolePacket \<Rightarrow> PacketRole table \<Rightarrow> nat" where
  "packet_roles_count p t =
     length (filter (\<lambda>(i, row). id_RolePacket (role_packet row) = id_RolePacket p) t)"

definition PacketRole_pre_save :: "PacketRole \<Rightarrow> PacketRole table \<Rightarrow> error + unit" where
  "PacketRole_pre_save self t =
     (if duration self < 0 then Inl FieldError
      else if packet_roles_count (role_packet self) t + 1 > MAXIMUM_ROLES then Inl IntegrityError
      else if guild_Role (role self) \<noteq> guild_RolePacket (role_packet self)
        then Inl IntegrityError
      else Inr ())"

text \<open>
  The table is declared \<^verbatim>\<open>unique_together = (("role", "role_packet"),)\<close>: the database
  refuses the insert of a second row with the same role and the same packet.
\<close>

definition role_in_packet :: "PacketRole \<Rightarrow> PacketRole table \<Rightarrow> bool" where
  "role_in_packet self t =
     list_ex (\<lambda>(i, row). id_Role (role row) = id_Role (role self)
                \<and> id_RolePacket (role_packet row) = id_RolePacket (role_packet self)) t"

text \<open>\<^verbatim>\<open>save()\<close> of a new PacketRole: the hook, then the insert.\<close>

definition PacketRole_save :: "PacketRole \<Rightarrow> PacketRole table \<Rightarrow> (error + nat) \<times> PacketRole table" where
  "PacketRole_save self t =
     (case PacketRole_pre_save self t of
        Inl e \<Rightarrow> (Inl e, t)
      | Inr _ \<Rightarrow>
          if role_in_packet self t then (Inl IntegrityError, t)
          else (let (i, t') = execute_insert self t in (Inr i, t')))"

text \<open>
  \<^verbatim>\<open>PacketRole.create\<close>: a duration that is omitted or falsy (0) is replaced by the
  packet's default duration; the new instance is then saved.
\<close>

definition PacketRole_create ::
  "Role \<Rightarrow> RolePacket \<Rightarrow> int option \<Rightarrow> PacketRole table \<Rightarrow> (error + nat) \<times> PacketRole table" where
  "PacketRole_create r p d t =
     (let dur = (case d of None \<Rightarrow> default_role_duration p
                 | Some n \<Rightarrow> if n = 0 then default_role_duration p else n)
      in PacketRole_save \<lparr>role = r, role_packet = p, duration = dur\<rparr> t)"

definition packets_within_limit :: "PacketRole table \<Rightarrow> bool" where
  "packets_within_limit t = (\<forall>p. packet_roles_count p t \<le> MAXIMUM_ROLES)"

section \<open>Guild and License\<close>

text \<open>
  Of a Guild, the fields that the license operations read: its id, the license format and
  branding handed to the key generator, and the key of its row of default reminders.
\<close>

record Guild =
  id_Guild :: int
  custom_license_format :: string
  license_branding :: string
  reminder_activations_Guild :: nat

text \<open>
  A License: its primary key is the key string (a list of its characters), its guild is
  the loaded Guild, its reminder schedule is held by the key of the ReminderActivations
  row. RegeneratingLicense extends it with the role packet.
\<close>

record License =
  key :: string
  guild_License :: Guild
  reminder_activations :: nat
  inactive :: bool

record RegeneratingLicense = License +
  role_packet_License :: RolePacket

definition KEY_MIN_LENGTH :: nat where
  "KEY_MIN_LENGTH = 14"

definition License_pre_save :: "'a License_scheme \<Rightarrow> error + unit" where
  "License_pre_save self =
     (if length (key self) < KEY_MIN_LENGTH then Inl FieldError else Inr ())"

text \<open>
  \<^verbatim>\<open>save()\<close> of a License (RegeneratingLicense inherits the hook): a loaded instance
  updates the row with its key, a new instance is inserted unless the key is already a
  primary key of the table.
\<close>

definition License_save ::
  "bool \<Rightarrow> 'a License_scheme \<Rightarrow> 'a License_scheme list
     \<Rightarrow> (error + unit) \<times> 'a License_scheme list" where
  "License_save saved_in_db self ls =
     (case License_pre_save self of
        Inl e \<Rightarrow> (Inl e, ls)
      | Inr _ \<Rightarrow>
          if saved_in_db
          then (Inr (), map (\<lambda>row. if key row = key self then self else row) ls)
          else if key self \<in> set (map key ls) then (Inl IntegrityError, ls)
          else (Inr (), ls @ [self]))"


text \<open>The stored state that the license operations read and write.\<close>

record 'l db =
  reminders_settings :: "ReminderActivations table"
  licenses :: "'l list"

text \<open>
  \<^verbatim>\<open>License.create\<close>: when no \<^verbatim>\<open>reminder_activations\<close> is passed (or a falsy one),
  \<^verbatim>\<open>ReminderActivations.create()\<close> makes a row from the field defaults; the license is
  then built from the remaining arguments (\<open>extra\<close> stands for the fields of a subclass)
  with the default \<^verbatim>\<open>inactive = False\<close> and saved.
\<close>

definition License_create ::
  "string \<Rightarrow> Guild \<Rightarrow> nat option \<Rightarrow> 'a \<Rightarrow> ('a License_scheme) db
     \<Rightarrow> (error + 'a License_scheme) \<times> ('a License_scheme) db" where
  "License_create k g ra extra d =
     (let (r, rs) = (case ra of
                       None \<Rightarrow> ReminderActivations_save None ReminderActivations_defaults
                                 (reminders_settings d)
                     | Some i \<Rightarrow> (Inr i, reminders_settings d));
          d1 = d\<lparr>reminders_settings := rs\<rparr>
      in case r of
           Inl e \<Rightarrow> (Inl e, d1)
         | Inr i \<Rightarrow>
             (let self = \<lparr>key = k, guild_License = g, reminder_activations = i,
                          inactive = False, \<dots> = extra\<rparr>;
                  (r2, ls) = License_save False self (licenses d1);
                  d2 = d1\<lparr>licenses := ls\<rparr>
              in case r2 of Inl e \<Rightarrow> (Inl e, d2) | Inr _ \<Rightarrow> (Inr self, d2)))"

text \<open>
  \<^verbatim>\<open>RegeneratingLicense.regenerate\<close>. The key generator
  \<^verbatim>\<open>LicenseFormatter.generate_single\<close> draws random characters, so it is a parameter
  \<open>generate_single\<close> of the model. \<open>regenerate_run\<close> returns the outcome and the stored
  state after each of the three writes, in order: the cloned ReminderActivations row, the
  new license, the deactivated original. A save that raises in its pre-save hook leaves the
  state as it was.
\<close>

definition regenerate_run ::
  "(string \<Rightarrow> string \<Rightarrow> string) \<Rightarrow> RegeneratingLicense \<Rightarrow> RegeneratingLicense db
     \<Rightarrow> (error + RegeneratingLicense) \<times> RegeneratingLicense db list" where
  "regenerate_run generate_single self d =
     (let guild = guild_License self;
          role_packet' = role_packet_License self
      in case map_of (reminders_settings d) (reminder_activations self) of
           None \<Rightarrow> (Inl AttributeError, [])
         | Some reminder_activations' \<Rightarrow>
             (let new_key = generate_single (custom_license_format guild) (license_branding guild);
                  (r1, rs) = (case get_all_activations reminder_activations' of
                                [a1, a2, a3, a4, a5] \<Rightarrow>
                                   create_easy a1 a2 a3 a4 a5 (reminders_settings d)
                              | _ \<Rightarrow> (Inl TypeError, reminders_settings d));
                  d1 = d\<lparr>reminders_settings := rs\<rparr>
              in case r1 of
                   Inl e \<Rightarrow> (Inl e, [d1])
                 | Inr new_reminder_activations \<Rightarrow>
                     (let new_license =
                            \<lparr>key = new_key, guild_License = guild,
                             reminder_activations = new_reminder_activations,
                             inactive = False, role_packet_License = role_packet'\<rparr>;
                          (r2, ls2) = License_save False new_license (licenses d1);
                          d2 = d1\<lparr>licenses := ls2\<rparr>
                      in case r2 of
                           Inl e \<Rightarrow> (Inl e, [d1, d2])
                         | Inr _ \<Rightarrow>
                             (let (r3, ls3) = License_save True (self\<lparr>inactive := True\<rparr>)
                                                (licenses d2);
                                  d3 = d2\<lparr>licenses := ls3\<rparr>
                              in case r3 of
                                   Inl e \<Rightarrow> (Inl e, [d1, d2, d3])
                                 | Inr _ \<Rightarrow> (Inr new_license, [d1, d2, d3])))))"

definition regenerate ::
  "(string \<Rightarrow> string \<Rightarrow> string) \<Rightarrow> RegeneratingLicense \<Rightarrow> RegeneratingLicense db
     \<Rightarrow> (error + RegeneratingLicense) \<times> RegeneratingLicense db" where
  "regenerate generate_single self d =
     (let (r, states) = regenerate_run generate_single self d in (r, last (d # states)))"

text \<open>What a reader of the licenses table sees of a key: no row, an active or an inactive one.\<close>

definition license_inactive :: "'a License_scheme db \<Rightarrow> string \<Rightarrow> bool option" where
  "license_inactive d k = map_option inactive (find (\<lambda>row. key row = k) (licenses d))"

section \<open>License key formatter\<close>

text \<open>
  Modelled from the spec: \<^verbatim>\<open>bot/utils/licence_helper.py\<close> (the class
  \<^verbatim>\<open>LicenseFormatter\<close>) is not among the sources. The table of placeholders is a
  parameter \<open>classes\<close>: it maps a placeholder character to the size of its character class
  and every other (literal) character to \<open>None\<close>. A template is split into its runs of
  consecutive occurrences of the same character.
\<close>

fun runs :: "string \<Rightarrow> (char \<times> nat) list" where
  "runs [] = []"
| "runs (c # cs) =
     (case runs cs of
        [] \<Rightarrow> [(c, 1)]
      | (c', n) # rest \<Rightarrow> if c = c' then (c', Suc n) # rest else (c, 1) # (c', n) # rest)"

text \<open>
  Modelled from the spec: a run of a placeholder contributes the size of its character class
  raised to the length of the run, a run of a literal character the factor 1.
\<close>

definition run_permutations :: "(char \<Rightarrow> nat option) \<Rightarrow> char \<times> nat \<Rightarrow> nat" where
  "run_permutations classes r =
     (case classes (fst r) of None \<Rightarrow> 1 | Some k \<Rightarrow> k ^ snd r)"

text \<open>
  Modelled from the spec: \<^verbatim>\<open>get_format_permutations\<close> multiplies the contributions of
  all runs of the template.
\<close>

definition get_format_permutations :: "(char \<Rightarrow> nat option) \<Rightarrow> string \<Rightarrow> nat" where
  "get_format_permutations classes template =
     prod_list (map (run_permutations classes) (runs template))"

text \<open>
  Modelled from the spec: \<^verbatim>\<open>is_secure\<close> holds when the permutation count reaches the
  fixed minimum \<^verbatim>\<open>min_permutation_count\<close>, a parameter here.
\<close>

definition is_secure :: "(char \<Rightarrow> nat option) \<Rightarrow> nat \<Rightarrow> string \<Rightarrow> bool" where
  "is_secure classes min_permutation_count template =
     (min_permutation_count \<le> get_format_permutations classes template)"

section \<open>Concrete rows for the examples\<close>

definition example_guild :: Guild where
  "example_guild = \<lparr>id_Guild = 7, custom_license_format = [], license_branding = [],
                     reminder_activations_Guild = 1\<rparr>"

definition example_packet :: RolePacket where
  "example_packet = \<lparr>id_RolePacket = 3, guild_RolePacket = 7, name = ''supporters'',
                      custom_message = [], default_role_duration = 60\<rparr>"

definition example_packet_role :: "nat \<Rightarrow> PacketRole" where
  "example_packet_role i =
     \<lparr>role = \<lparr>id_Role = int i, guild_Role = 7, tier_level = 0, tier_power = 1\<rparr>,
      role_packet = example_packet, duration = 60\<rparr>"

definition example_packet_roles :: "nat \<Rightarrow> PacketRole table" where
  "example_packet_roles n = map (\<lambda>i. (i, example_packet_role i)) [1..<Suc n]"

definition example_license :: RegeneratingLicense where
  "example_license = \<lparr>key = ''ABCD-EFGH-IJKL'', guild_License = example_guild,
                       reminder_activations = 2, inactive = False,
                       role_packet_License = example_packet\<rparr>"

definition example_new_license :: RegeneratingLicense where
  "example_new_license = \<lparr>key = ''MNOP-QRST-UVWX'', guild_License = example_guild,
                           reminder_activations = 3, inactive = False,
                           role_packet_License = example_packet\<rparr>"

definition example_reminders :: ReminderActivations where
  "example_reminders = \<lparr>first_activation = 300, second_activation = 60, third_activation = 0,
                         fourth_activation = 0, fifth_activation = 0\<rparr>"

definition example_db :: "RegeneratingLicense db" where
  "example_db = \<lparr>reminders_settings = [(1, ReminderActivations_defaults), (2, example_reminders)],
                  licenses = [example_license]\<rparr>"

definition example_license_db :: "License db" where
  "example_license_db = \<lparr>reminders_settings = [(1, example_reminders)], licenses = []\<rparr>"

text \<open>A key generator that returns one given key, whatever the format and the branding.\<close>

definition fixed_key :: "string \<Rightarrow> string \<Rightarrow> string \<Rightarrow> string" where
  "fixed_key k license_format branding = k"

section \<open>ReminderActivations: what the save hook accepts\<close>

lemma ReminderActivations_post_save_iff:
  "ReminderActivations_post_save self = Inr () \<longleftrightarrow>
     0 < first_activation self \<and> (\<forall>a \<in> set (get_all_activations self). 0 \<le> a)
     \<and> second_activation self \<le> first_activation self
     \<and> third_activation self \<le> second_activation self
     \<and> fourth_activation self \<le> third_activation self
     \<and> fifth_activation self \<le> fourth_activation self"
  by (auto simp add: ReminderActivations_post_save_def check_valid_first_activation_def getitem_def
      get_all_activations_def check_activation_ranges_def check_valid_order_activations_def
      split: sum.splits if_splits)

text \<open>
  C2. The claim: a save succeeds exactly when the first activation is positive, no activation
  is negative and the non-zero activations are strictly decreasing, so that a row with two
  equal non-zero activations is rejected. The order check raises only when an activation is
  smaller than its successor: the row (5, 5, 0, 0, 0) passes all three checks and is stored,
  although the docstring of the check rules duplicates out.
\<close>

theorem ReminderActivations_save_accepts_duplicates:
  "ReminderActivations_post_save
     \<lparr>first_activation = 5, second_activation = 5, third_activation = 0,
      fourth_activation = 0, fifth_activation = 0\<rparr> = Inr ()
   \<and> ReminderActivations_save None
     \<lparr>first_activation = 5, second_activation = 5, third_activation = 0,
      fourth_activation = 0, fifth_activation = 0\<rparr> []
     = (Inr 1, [(1, \<lparr>first_activation = 5, second_activation = 5, third_activation = 0,
                     fourth_activation = 0, fifth_activation = 0\<rparr>)])"
  by (simp add: ReminderActivations_save_def execute_insert_def fresh_id_def
      ReminderActivations_post_save_def check_valid_first_activation_def getitem_def
      get_all_activations_def check_activation_ranges_def check_valid_order_activations_def)

text \<open>
  C5. The claim: a ReminderActivations row that fails its checks is not persisted. The checks
  are in the post-save hook: saving the loaded row 1 with its first activation set to 0
  raises \<^verbatim>\<open>FieldError\<close>, and the table then holds the rejected values in place of the
  defaults it held before.
\<close>

theorem ReminderActivations_save_persists_rejected:
  "ReminderActivations_save (Some 1)
     \<lparr>first_activation = 0, second_activation = 0, third_activation = 0,
      fourth_activation = 0, fifth_activation = 0\<rparr> [(1, ReminderActivations_defaults)]
     = (Inl FieldError,
        [(1, \<lparr>first_activation = 0, second_activation = 0, third_activation = 0,
               fourth_activation = 0, fifth_activation = 0\<rparr>)])
   \<and> [(1, \<lparr>first_activation = 0, second_activation = 0, third_activation = 0,
             fourth_activation = 0, fifth_activation = 0\<rparr>)]
       \<noteq> [(1, ReminderActivations_defaults)]"
  by (simp add: ReminderActivations_save_def execute_update_def ReminderActivations_post_save_def
      check_valid_first_activation_def getitem_def get_all_activations_def
      ReminderActivations_defaults_def)

section \<open>Role: tier slots and tier ranges\<close>

lemma Role_save_unchanged_on_error:
  "Role_pre_save self roles = Inl e \<Longrightarrow> Role_save b self roles = (Inl e, roles)"
  by (simp add: Role_save_def)

lemma tier_slot_taken_iff:
  "tier_slot_taken self roles \<longleftrightarrow>
     (\<exists>row \<in> set roles. id_Role row \<noteq> id_Role self \<and> guild_Role row = guild_Role self
          \<and> tier_level row = tier_level self \<and> tier_power row = tier_power self)"
  by (simp add: tier_slot_taken_def list_ex_iff)

lemma Role_save_rejects_taken:
  assumes "other \<in> set roles" "id_Role other \<noteq> id_Role self" "guild_Role other = guild_Role self"
    "tier_level other = tier_level self" "tier_power other = tier_power self" "0 < tier_level self"
  shows "\<exists>e. Role_save b self roles = (Inl e, roles)"
proof -
  have "tier_slot_taken self roles"
    using assms by (auto simp: tier_slot_taken_iff)
  then have "\<exists>e. Role_pre_save self roles = Inl e"
    using assms(6) by (simp add: Role_pre_save_def)
  then show ?thesis
    by (auto simp: Role_save_unchanged_on_error)
qed

lemma Role_save_accepts:
  assumes "0 \<le> tier_level self" "tier_level self \<le> 100" "0 \<le> tier_power self" "tier_power self \<le> 9"
    "tier_level self = 0 \<or> \<not> tier_slot_taken self roles"
  shows "Role_pre_save self roles = Inr ()"
  using assms by (auto simp: Role_pre_save_def)

lemma Role_pre_save_ok:
  "Role_pre_save self roles = Inr u \<Longrightarrow>
     0 \<le> tier_level self \<and> tier_level self \<le> 100 \<and> 0 \<le> tier_power self \<and> tier_power self \<le> 9
     \<and> (tier_level self = 0 \<or> \<not> tier_slot_taken self roles)"
  by (auto simp: Role_pre_save_def split: if_splits)

lemma Role_save_cases:
  "Role_save b self roles = (r, roles') \<Longrightarrow>
     roles' = roles \<or>
     (Role_pre_save self roles = Inr () \<and>
       (roles' = map (\<lambda>row. if id_Role row = id_Role self then self else row) roles
        \<or> roles' = roles @ [self]))"
  by (auto simp: Role_save_def split: sum.splits if_splits)

lemma tier_slots_unique_write:
  assumes inv: "tier_slots_unique roles"
    and ok: "tier_level self = 0 \<or> \<not> tier_slot_taken self roles"
  shows "tier_slots_unique (map (\<lambda>row. if id_Role row = id_Role self then self else row) roles)"
    and "tier_slots_unique (roles @ [self])"
  using inv ok unfolding tier_slots_unique_def tier_slot_taken_iff
  by (auto split: if_splits)

lemma Role_save_preserves_slots:
  assumes "tier_slots_unique roles"
  shows "tier_slots_unique (snd (Role_save b self roles))"
proof -
  obtain r roles' where s: "Role_save b self roles = (r, roles')"
    by (cases "Role_save b self roles")
  from Role_save_cases [OF s] show ?thesis
    using assms s by (auto dest!: Role_pre_save_ok intro: tier_slots_unique_write)
qed

lemma Role_save_preserves_range:
  assumes "tiers_in_range roles"
  shows "tiers_in_range (snd (Role_save b self roles))"
proof -
  obtain r roles' where s: "Role_save b self roles = (r, roles')"
    by (cases "Role_save b self roles")
  from Role_save_cases [OF s] show ?thesis
    using assms s by (auto dest!: Role_pre_save_ok simp: tiers_in_range_def)
qed


text \<open>
  C1. Saving a Role whose tier level is positive and whose (tier level, tier power) is held
  by another stored Role of the same guild raises an error and leaves the table as it was.
  A Role within the tier ranges whose slot is free, or whose tier level is 0, is written (a
  loaded row by an update, a new row by an insert under an id that is not yet a primary
  key). Hence every save keeps the table free of two Roles of one guild in one slot of a
  non-zero tier level.
\<close>

theorem Role_save_tier_slot_unique:
  "(\<forall>other \<in> set roles.
       id_Role other \<noteq> id_Role self \<and> guild_Role other = guild_Role self
       \<and> 0 < tier_level self \<and> tier_level other = tier_level self
       \<and> tier_power other = tier_power self
       \<longrightarrow> (\<exists>e. Role_save saved_in_db self roles = (Inl e, roles)))
   \<and> (0 \<le> tier_level self \<and> tier_level self \<le> 100 \<and> 0 \<le> tier_power self \<and> tier_power self \<le> 9
       \<and> (tier_level self = 0 \<or> \<not> tier_slot_taken self roles)
       \<and> (saved_in_db \<or> id_Role self \<notin> set (map id_Role roles))
       \<longrightarrow> Role_save saved_in_db self roles =
             (Inr (), if saved_in_db
                      then map (\<lambda>row. if id_Role row = id_Role self then self else row) roles
                      else roles @ [self]))
   \<and> (tier_slots_unique roles \<longrightarrow> tier_slots_unique (snd (Role_save saved_in_db self roles)))"
proof (intro conjI ballI impI)
  fix other
  assume "other \<in> set roles"
    and "id_Role other \<noteq> id_Role self \<and> guild_Role other = guild_Role self
       \<and> 0 < tier_level self \<and> tier_level other = tier_level self
       \<and> tier_power other = tier_power self"
  then show "\<exists>e. Role_save saved_in_db self roles = (Inl e, roles)"
    using Role_save_rejects_taken [of other roles self saved_in_db] by simp
next
  assume a: "0 \<le> tier_level self \<and> tier_level self \<le> 100 \<and> 0 \<le> tier_power self \<and> tier_power self \<le> 9
       \<and> (tier_level self = 0 \<or> \<not> tier_slot_taken self roles)
       \<and> (saved_in_db \<or> id_Role self \<notin> set (map id_Role roles))"
  then have "Role_pre_save self roles = Inr ()"
    by (simp add: Role_save_accepts)
  with a show "Role_save saved_in_db self roles =
             (Inr (), if saved_in_db
                      then map (\<lambda>row. if id_Role row = id_Role self then self else row) roles
                      else roles @ [self])"
    by (auto simp: Role_save_def)
next
  assume "tier_slots_unique roles"
  then show "tier_slots_unique (snd (Role_save saved_in_db self roles))"
    by (rule Role_save_preserves_slots)
qed

theorem Role_save_tier_slot_unique_witness:
  "Role_save False \<lparr>id_Role = 2, guild_Role = 7, tier_level = 1, tier_power = 1\<rparr>
       [\<lparr>id_Role = 1, guild_Role = 7, tier_level = 1, tier_power = 1\<rparr>]
     = (Inl IntegrityError, [\<lparr>id_Role = 1, guild_Role = 7, tier_level = 1, tier_power = 1\<rparr>])
   \<and> Role_save False \<lparr>id_Role = 2, guild_Role = 7, tier_level = 1, tier_power = 2\<rparr>
       [\<lparr>id_Role = 1, guild_Role = 7, tier_level = 1, tier_power = 1\<rparr>]
     = (Inr (), [\<lparr>id_Role = 1, guild_Role = 7, tier_level = 1, tier_power = 1\<rparr>,
                 \<lparr>id_Role = 2, guild_Role = 7, tier_level = 1, tier_power = 2\<rparr>])
   \<and> tier_slots_unique [\<lparr>id_Role = 1, guild_Role = 7, tier_level = 1, tier_power = 1\<rparr>]
   \<and> tier_slots_unique [\<lparr>id_Role = 1, guild_Role = 7, tier_level = 1, tier_power = 1\<rparr>,
                         \<lparr>id_Role = 2, guild_Role = 7, tier_level = 1, tier_power = 2\<rparr>]"
  using Role_save_tier_slot_unique
          [of "[\<lparr>id_Role = 1, guild_Role = 7, tier_level = 1, tier_power = 1\<rparr>]"
              "\<lparr>id_Role = 2, guild_Role = 7, tier_level = 1, tier_power = 1\<rparr>" False]
        Role_save_tier_slot_unique
          [of "[\<lparr>id_Role = 1, guild_Role = 7, tier_level = 1, tier_power = 1\<rparr>]"
              "\<lparr>id_Role = 2, guild_Role = 7, tier_level = 1, tier_power = 2\<rparr>" False]
  by (simp add: Role_save_def Role_pre_save_def tier_slot_taken_def tier_slots_unique_def)

text \<open>
  C6, as claimed: a save is rejected whenever the tier power is outside 1..9. The hook
  accepts the tier power 0: the row below is stored.
\<close>

theorem Role_save_tier_power_zero_counterexample:
  "Role_save False \<lparr>id_Role = 1, guild_Role = 7, tier_level = 1, tier_power = 0\<rparr> []
     = (Inr (), [\<lparr>id_Role = 1, guild_Role = 7, tier_level = 1, tier_power = 0\<rparr>])
   \<and> \<not> (1 \<le> tier_power \<lparr>id_Role = 1, guild_Role = 7, tier_level = 1, tier_power = 0\<rparr>)"
  by (simp add: Role_save_def Role_pre_save_def tier_slot_taken_def)

text \<open>
  C6, amended: a save is rejected with \<^verbatim>\<open>FieldError\<close>, the table unchanged, whenever the
  tier level is outside 0..100 or the tier power is outside 0..9; every save keeps all
  stored Roles within 0..100 and 0..9.
\<close>

theorem Role_save_tier_range:
  "(\<not> (0 \<le> tier_level self \<and> tier_level self \<le> 100)
      \<or> \<not> (0 \<le> tier_power self \<and> tier_power self \<le> 9)
     \<longrightarrow> Role_save saved_in_db self roles = (Inl FieldError, roles))
   \<and> (tiers_in_range roles \<longrightarrow> tiers_in_range (snd (Role_save saved_in_db self roles)))"
proof (intro conjI impI)
  assume "\<not> (0 \<le> tier_level self \<and> tier_level self \<le> 100)
      \<or> \<not> (0 \<le> tier_power self \<and> tier_power self \<le> 9)"
  then have "Role_pre_save self roles = Inl FieldError"
    by (auto simp: Role_pre_save_def)
  then show "Role_save saved_in_db self roles = (Inl FieldError, roles)"
    by (rule Role_save_unchanged_on_error)
next
  assume "tiers_in_range roles"
  then show "tiers_in_range (snd (Role_save saved_in_db self roles))"
    by (rule Role_save_preserves_range)
qed

theorem Role_save_tier_range_witness:
  "Role_save True \<lparr>id_Role = 1, guild_Role = 7, tier_level = 1, tier_power = 10\<rparr>
       [\<lparr>id_Role = 1, guild_Role = 7, tier_level = 1, tier_power = 1\<rparr>]
     = (Inl FieldError, [\<lparr>id_Role = 1, guild_Role = 7, tier_level = 1, tier_power = 1\<rparr>])
   \<and> tiers_in_range [\<lparr>id_Role = 1, guild_Role = 7, tier_level = 1, tier_power = 1\<rparr>]
   \<and> tiers_in_range (snd (Role_save True \<lparr>id_Role = 1, guild_Role = 7, tier_level = 100, tier_power = 9\<rparr>
       [\<lparr>id_Role = 1, guild_Role = 7, tier_level = 1, tier_power = 1\<rparr>]))"
  using Role_save_tier_range
          [of "\<lparr>id_Role = 1, guild_Role = 7, tier_level = 1, tier_power = 10\<rparr>" True
              "[\<lparr>id_Role = 1, guild_Role = 7, tier_level = 1, tier_power = 1\<rparr>]"]
        Role_save_tier_range
          [of "\<lparr>id_Role = 1, guild_Role = 7, tier_level = 100, tier_power = 9\<rparr>" True
              "[\<lparr>id_Role = 1, guild_Role = 7, tier_level = 1, tier_power = 1\<rparr>]"]
  by (simp add: tiers_in_range_def)

section \<open>PacketRole: the limit of a packet\<close>

lemma packet_roles_count_append:
  "packet_roles_count p (t @ [(i, row)]) =
     packet_roles_count p t + (if id_RolePacket (role_packet row) = id_RolePacket p then 1 else 0)"
  by (simp add: packet_roles_count_def)

lemma packet_roles_count_le_length: "packet_roles_count p t \<le> length t"
  by (simp add: packet_roles_count_def)

lemma PacketRole_save_cases:
  "PacketRole_save self t = (r, t') \<Longrightarrow>
     t' = t \<or> (PacketRole_pre_save self t = Inr () \<and> t' = t @ [(fresh_id t, self)])"
  by (auto simp: PacketRole_save_def execute_insert_def split: sum.splits if_splits)

lemma PacketRole_pre_save_limit:
  "PacketRole_pre_save self t = Inr u \<Longrightarrow> packet_roles_count (role_packet self) t < MAXIMUM_ROLES"
  by (auto simp: PacketRole_pre_save_def split: if_splits)

lemma PacketRole_save_preserves_limit:
  assumes "packets_within_limit t"
  shows "packets_within_limit (snd (PacketRole_save self t))"
proof -
  obtain r t' where s: "PacketRole_save self t = (r, t')"
    by (cases "PacketRole_save self t")
  from PacketRole_save_cases [OF s] show ?thesis
  proof
    assume "t' = t"
    with assms s show ?thesis by simp
  next
    assume a: "PacketRole_pre_save self t = Inr () \<and> t' = t @ [(fresh_id t, self)]"
    then have lim: "packet_roles_count (role_packet self) t < MAXIMUM_ROLES"
      by (simp add: PacketRole_pre_save_limit)
    have "packet_roles_count p t' \<le> MAXIMUM_ROLES" for p
    proof (cases "id_RolePacket (role_packet self) = id_RolePacket p")
      case True
      then have "packet_roles_count p t = packet_roles_count (role_packet self) t"
        by (simp add: packet_roles_count_def)
      with lim a True show ?thesis
        by (simp add: packet_roles_count_append)
    next
      case False
      with a assms show ?thesis
        by (simp add: packet_roles_count_append packets_within_limit_def)
    qed
    with s show ?thesis
      by (simp add: packets_within_limit_def)
  qed
qed

lemma PacketRole_create_preserves_limit:
  "packets_within_limit t \<Longrightarrow> packets_within_limit (snd (PacketRole_create r p d t))"
  by (simp add: PacketRole_create_def PacketRole_save_preserves_limit)

text \<open>
  C7. Saving a PacketRole whose packet already holds \<open>MAXIMUM_ROLES\<close> (20) rows raises an
  error and leaves the table as it was. While the packet holds fewer (19, say), a PacketRole
  with a non-negative duration, a role of the packet's guild and a role not yet in the
  packet is stored, and the packet then holds one row more. Hence every save keeps every
  packet at 20 rows at most.
\<close>

theorem PacketRole_save_maximum_roles:
  "(MAXIMUM_ROLES \<le> packet_roles_count (role_packet self) t
      \<longrightarrow> (\<exists>e. PacketRole_save self t = (Inl e, t)))
   \<and> (packet_roles_count (role_packet self) t < MAXIMUM_ROLES \<and> 0 \<le> duration self
       \<and> guild_Role (role self) = guild_RolePacket (role_packet self) \<and> \<not> role_in_packet self t
      \<longrightarrow> PacketRole_save self t = (Inr (fresh_id t), t @ [(fresh_id t, self)])
          \<and> packet_roles_count (role_packet self) (t @ [(fresh_id t, self)])
              = Suc (packet_roles_count (role_packet self) t))
   \<and> (packets_within_limit t \<longrightarrow> packets_within_limit (snd (PacketRole_save self t)))"
proof (intro conjI impI)
  assume "MAXIMUM_ROLES \<le> packet_roles_count (role_packet self) t"
  then have "\<exists>e. PacketRole_pre_save self t = Inl e"
    by (simp add: PacketRole_pre_save_def)
  then show "\<exists>e. PacketRole_save self t = (Inl e, t)"
    by (auto simp: PacketRole_save_def)
next
  assume a: "packet_roles_count (role_packet self) t < MAXIMUM_ROLES \<and> 0 \<le> duration self
       \<and> guild_Role (role self) = guild_RolePacket (role_packet self) \<and> \<not> role_in_packet self t"
  then have "PacketRole_pre_save self t = Inr ()"
    by (simp add: PacketRole_pre_save_def)
  with a show "PacketRole_save self t = (Inr (fresh_id t), t @ [(fresh_id t, self)])"
    by (simp add: PacketRole_save_def execute_insert_def)
next
  show "packet_roles_count (role_packet self) (t @ [(fresh_id t, self)])
              = Suc (packet_roles_count (role_packet self) t)"
    by (simp add: packet_roles_count_append)
next
  assume "packets_within_limit t"
  then show "packets_within_limit (snd (PacketRole_save self t))"
    by (rule PacketRole_save_preserves_limit)
qed


lemma example_count: "packet_roles_count example_packet (example_packet_roles n) = n"
  by (simp add: packet_roles_count_def example_packet_roles_def example_packet_role_def
      filter_map o_def)

lemma example_not_in: "n < m \<Longrightarrow> \<not> role_in_packet (example_packet_role m) (example_packet_roles n)"
  by (auto simp: role_in_packet_def list_ex_iff example_packet_roles_def example_packet_role_def)

lemma example_within: "n \<le> 20 \<Longrightarrow> packets_within_limit (example_packet_roles n)"
  unfolding packets_within_limit_def MAXIMUM_ROLES_def
proof
  fix p
  assume "n \<le> 20"
  have "packet_roles_count p (example_packet_roles n) \<le> length (example_packet_roles n)"
    by (rule packet_roles_count_le_length)
  also have "\<dots> = n"
    by (simp add: example_packet_roles_def)
  finally show "packet_roles_count p (example_packet_roles n) \<le> 20"
    using \<open>n \<le> 20\<close> by simp
qed

theorem PacketRole_save_maximum_roles_witness:
  "PacketRole_save (example_packet_role 21) (example_packet_roles 20)
     = (Inl IntegrityError, example_packet_roles 20)
   \<and> PacketRole_save (example_packet_role 20) (example_packet_roles 19)
     = (Inr (fresh_id (example_packet_roles 19)),
        example_packet_roles 19 @ [(fresh_id (example_packet_roles 19), example_packet_role 20)])
   \<and> packet_roles_count example_packet (example_packet_roles 19) = 19
   \<and> packet_roles_count example_packet
        (example_packet_roles 19 @ [(fresh_id (example_packet_roles 19), example_packet_role 20)]) = 20
   \<and> packets_within_limit (example_packet_roles 19)
   \<and> packets_within_limit (snd (PacketRole_save (example_packet_role 20) (example_packet_roles 19)))"
proof -
  have rp: "role_packet (example_packet_role 20) = example_packet"
    "role_packet (example_packet_role 21) = example_packet"
    by (simp_all add: example_packet_role_def)
  have ok: "0 \<le> duration (example_packet_role 20)"
    "guild_Role (role (example_packet_role 20)) = guild_RolePacket (role_packet (example_packet_role 20))"
    by (simp_all add: example_packet_role_def example_packet_def)
  have pre: "PacketRole_pre_save (example_packet_role 21) (example_packet_roles 20) = Inl IntegrityError"
    by (simp add: PacketRole_pre_save_def rp example_count MAXIMUM_ROLES_def)
      (simp add: example_packet_role_def)
  then have rejected: "PacketRole_save (example_packet_role 21) (example_packet_roles 20)
     = (Inl IntegrityError, example_packet_roles 20)"
    by (simp add: PacketRole_save_def)
  from PacketRole_save_maximum_roles [of "example_packet_role 21" "example_packet_roles 20"]
    PacketRole_save_maximum_roles [of "example_packet_role 20" "example_packet_roles 19"]
    rejected ok example_within [of 19] example_not_in [of 19 20]
  show ?thesis
    by (auto simp: rp example_count MAXIMUM_ROLES_def)
qed

section \<open>License: the minimum length of a key\<close>





section \<open>License key formatter: permutation counts\<close>

lemma runs_prod_list:
  "prod_list (map (run_permutations classes) (runs t)) =
   prod_list (map (\<lambda>c. case classes c of None \<Rightarrow> 1 | Some k \<Rightarrow> k) t)"
  by (induction t) (auto simp: run_permutations_def split: list.splits option.splits)

text \<open>
  C9. Appending a placeholder character (one with a non-empty character class) to a template
  never lowers its permutation count, so a secure template stays secure.
\<close>

theorem get_format_permutations_mono:
  assumes "classes c = Some k" and "0 < k"
  shows "get_format_permutations classes t \<le> get_format_permutations classes (t @ [c])
         \<and> (is_secure classes m t \<longrightarrow> is_secure classes m (t @ [c]))"
proof -
  have eq: "get_format_permutations classes (t @ [c]) = get_format_permutations classes t * k"
    using assms(1) by (simp add: get_format_permutations_def runs_prod_list)
  have le: "get_format_permutations classes t \<le> get_format_permutations classes t * k"
    using assms(2) by simp
  show ?thesis
    unfolding is_secure_def eq using le by (auto intro: order_trans)
qed

theorem get_format_permutations_mono_witness:
  "get_format_permutations (Map.empty(CHR ''X'' \<mapsto> 36)) ''XX-''
     \<le> get_format_permutations (Map.empty(CHR ''X'' \<mapsto> 36)) (''XX-'' @ [CHR ''X''])
   \<and> is_secure (Map.empty(CHR ''X'' \<mapsto> 36)) 1000 ''XX-''
   \<and> is_secure (Map.empty(CHR ''X'' \<mapsto> 36)) 1000 (''XX-'' @ [CHR ''X''])"
  using get_format_permutations_mono [of "Map.empty(CHR ''X'' \<mapsto> 36)" "CHR ''X''" 36 "''XX-''" 1000]
  by (simp add: is_secure_def get_format_permutations_def run_permutations_def)

section \<open>License creation and regeneration\<close>

lemma foldr_max_ge: "i \<in> set xs \<Longrightarrow> i \<le> foldr max xs (0::nat)"
  by (induction xs) (auto simp: max_def)

lemma fresh_id_notin: "fresh_id t \<notin> fst ` set t"
proof
  assume "fresh_id t \<in> fst ` set t"
  then have "fresh_id t \<in> set (map fst t)" by simp
  then have "fresh_id t \<le> foldr max (map fst t) 0" by (rule foldr_max_ge)
  then show False by (simp add: fresh_id_def)
qed

lemma map_of_insert_fresh: "map_of (t @ [(fresh_id t, r)]) (fresh_id t) = Some r"
  using fresh_id_notin [of t] by (simp add: map_of_eq_None_iff [THEN iffD2] map_add_def)

lemma map_of_insert_old:
  "map_of t i = Some x \<Longrightarrow> map_of (t @ [(fresh_id t, r)]) i = Some x"
  by (simp add: map_add_def)

lemma ReminderActivations_save_new:
  "ReminderActivations_save None ra t =
     (case ReminderActivations_post_save ra of Inl e \<Rightarrow> Inl e | Inr _ \<Rightarrow> Inr (fresh_id t),
      t @ [(fresh_id t, ra)])"
  by (simp add: ReminderActivations_save_def execute_insert_def split: sum.splits)

lemma ReminderActivations_defaults_valid:
  "ReminderActivations_post_save ReminderActivations_defaults = Inr ()"
  by (simp add: ReminderActivations_post_save_iff ReminderActivations_defaults_def
      get_all_activations_def)

lemma License_create_None:
  assumes "KEY_MIN_LENGTH \<le> length k" and "k \<notin> set (map key (licenses d))"
  shows "License_create k g None extra d =
     (Inr \<lparr>key = k, guild_License = g, reminder_activations = fresh_id (reminders_settings d),
           inactive = False, \<dots> = extra\<rparr>,
      d\<lparr>reminders_settings :=
           reminders_settings d @ [(fresh_id (reminders_settings d), ReminderActivations_defaults)],
        licenses := licenses d @
           [\<lparr>key = k, guild_License = g, reminder_activations = fresh_id (reminders_settings d),
             inactive = False, \<dots> = extra\<rparr>]\<rparr>)"
  using assms
  by (simp add: License_create_def ReminderActivations_save_new
      ReminderActivations_defaults_valid License_save_def License_pre_save_def Let_def)

text \<open>
  C10. \<^verbatim>\<open>License.create\<close> without \<^verbatim>\<open>reminder_activations\<close>: the created license is
  stored and linked to a row of the reminders table that did not exist before and that
  carries the field defaults (720, 0, 0, 0, 0); the rows already stored, the guild's own
  among them, are left as they were and none of their values is copied.
\<close>

theorem License_create_default_reminders:
  assumes "KEY_MIN_LENGTH \<le> length k" and "k \<notin> set (map key (licenses d))"
  shows "\<exists>self d'. License_create k g None extra d = (Inr self, d')
           \<and> key self = k \<and> guild_License self = g \<and> inactive self = False
           \<and> reminder_activations self \<notin> fst ` set (reminders_settings d)
           \<and> map_of (reminders_settings d') (reminder_activations self)
                = Some \<lparr>first_activation = 720, second_activation = 0, third_activation = 0,
                         fourth_activation = 0, fifth_activation = 0\<rparr>
           \<and> (\<forall>i x. map_of (reminders_settings d) i = Some x
                  \<longrightarrow> map_of (reminders_settings d') i = Some x)
           \<and> licenses d' = licenses d @ [self]"
  unfolding License_create_None [OF assms]
  using fresh_id_notin [of "reminders_settings d"]
  by (simp add: map_of_insert_fresh map_of_insert_old ReminderActivations_defaults_def
      del: map_of_append)


lemma example_reminders_valid: "ReminderActivations_post_save example_reminders = Inr ()"
  by (simp add: ReminderActivations_post_save_iff example_reminders_def get_all_activations_def)

theorem License_create_default_reminders_witness:
  "License_create ''ABCD-EFGH-IJKL'' example_guild None () example_license_db
     = (Inr \<lparr>key = ''ABCD-EFGH-IJKL'', guild_License = example_guild,
             reminder_activations = 2, inactive = False\<rparr>,
        \<lparr>reminders_settings =
            [(1, \<lparr>first_activation = 300, second_activation = 60, third_activation = 0,
                   fourth_activation = 0, fifth_activation = 0\<rparr>),
             (2, \<lparr>first_activation = 720, second_activation = 0, third_activation = 0,
                   fourth_activation = 0, fifth_activation = 0\<rparr>)],
          licenses = [\<lparr>key = ''ABCD-EFGH-IJKL'', guild_License = example_guild,
                       reminder_activations = 2, inactive = False\<rparr>]\<rparr>)
   \<and> reminder_activations_Guild example_guild = 1"
proof -
  have h1: "KEY_MIN_LENGTH \<le> length ''ABCD-EFGH-IJKL''"
    by (simp add: KEY_MIN_LENGTH_def)
  have h2: "''ABCD-EFGH-IJKL'' \<notin> set (map key (licenses example_license_db))"
    by (simp add: example_license_db_def)
  from License_create_default_reminders [OF h1 h2, of example_guild "()"]
    License_create_None [OF h1 h2, of example_guild "()"]
  show ?thesis
    by (simp add: example_license_db_def example_reminders_def ReminderActivations_defaults_def
        example_guild_def fresh_id_def)
qed

lemma find_key_replaced:
  assumes "key s = k"
  shows "find (\<lambda>row. key row = k) (map (\<lambda>row. if key row = k then s else row) ls)
           = (if k \<in> set (map key ls) then Some s else None)"
  using assms by (induction ls) auto

lemma find_key_other:
  assumes "k' \<noteq> k" and "key s = k"
  shows "find (\<lambda>row. key row = k') (map (\<lambda>row. if key row = k then s else row) ls)
           = find (\<lambda>row. key row = k') ls"
  using assms by (induction ls) auto

lemma find_key_appended:
  assumes "key new \<notin> set (map key ls)"
  shows "find (\<lambda>row. key row = key new) (ls @ [new]) = Some new"
  using assms by (induction ls) auto

lemma find_key_append_other:
  assumes "k \<in> set (map key ls)"
  shows "find (\<lambda>row. key row = k) (ls @ [new]) = find (\<lambda>row. key row = k) ls"
  using assms by (induction ls) auto

lemma create_easy_clone:
  "(case get_all_activations ra of
      [a1, a2, a3, a4, a5] \<Rightarrow> create_easy a1 a2 a3 a4 a5 t
    | _ \<Rightarrow> (Inl TypeError, t))
   = ReminderActivations_save None ra t"
  by (cases ra) (simp add: get_all_activations_def create_easy_def)

lemma regenerate_run_success:
  assumes ra: "map_of (reminders_settings d) (reminder_activations self) = Some ra"
    and valid: "ReminderActivations_post_save ra = Inr ()"
    and new_key: "new_key = generate_single (custom_license_format (guild_License self))
                                            (license_branding (guild_License self))"
    and len: "KEY_MIN_LENGTH \<le> length new_key"
    and unused: "new_key \<notin> set (map key (licenses d))"
    and len_self: "KEY_MIN_LENGTH \<le> length (key self)"
    and n: "n = fresh_id (reminders_settings d)"
    and new: "new = \<lparr>key = new_key, guild_License = guild_License self,
                     reminder_activations = n, inactive = False,
                     role_packet_License = role_packet_License self\<rparr>"
    and d1: "d1 = d\<lparr>reminders_settings := reminders_settings d @ [(n, ra)]\<rparr>"
    and d2: "d2 = d1\<lparr>licenses := licenses d @ [new]\<rparr>"
    and d3: "d3 = d2\<lparr>licenses := map (\<lambda>row. if key row = key self
                                             then self\<lparr>inactive := True\<rparr> else row)
                                   (licenses d @ [new])\<rparr>"
  shows "regenerate_run generate_single self d = (Inr new, [d1, d2, d3])"
  using ra valid len unused len_self
  unfolding regenerate_run_def create_easy_clone n new d1 d2 d3 new_key
  by (simp add: ReminderActivations_save_new License_save_def License_pre_save_def Let_def)


lemma find_key_None: "k \<notin> set (map key ls) \<Longrightarrow> find (\<lambda>row. key row = k) ls = None"
  by (induction ls) auto

lemma license_inactive_stored:
  "license_inactive d k = Some b \<Longrightarrow> k \<in> set (map key (licenses d))"
  by (auto simp: license_inactive_def find_Some_iff)

lemma example_run:
  "regenerate_run (fixed_key ''MNOP-QRST-UVWX'') example_license example_db
     = (Inr example_new_license,
        [\<lparr>reminders_settings = [(1, ReminderActivations_defaults), (2, example_reminders),
                                 (3, example_reminders)],
          licenses = [example_license]\<rparr>,
         \<lparr>reminders_settings = [(1, ReminderActivations_defaults), (2, example_reminders),
                                 (3, example_reminders)],
          licenses = [example_license, example_new_license]\<rparr>,
         \<lparr>reminders_settings = [(1, ReminderActivations_defaults), (2, example_reminders),
                                 (3, example_reminders)],
          licenses = [example_license\<lparr>inactive := True\<rparr>, example_new_license]\<rparr>])"
proof (rule regenerate_run_success [where ra = example_reminders and n = 3
        and new_key = "''MNOP-QRST-UVWX''"])
  show "ReminderActivations_post_save example_reminders = Inr ()"
    by (simp add: ReminderActivations_post_save_iff example_reminders_def get_all_activations_def)
qed (simp_all add: example_db_def example_license_def example_new_license_def fixed_key_def
      KEY_MIN_LENGTH_def fresh_id_def)

text \<open>
  C3. A regeneration that returns: the stored original is inactive; the returned license is
  stored under another key, active, with the guild and the role packet of the original; its
  reminders row is a new one that holds the values of the original's row, which stays in
  place.
\<close>

theorem regenerate_replaces_license:
  assumes stored: "self \<in> set (licenses d)"
    and ra: "map_of (reminders_settings d) (reminder_activations self) = Some ra"
    and valid: "ReminderActivations_post_save ra = Inr ()"
    and new_key: "new_key = generate_single (custom_license_format (guild_License self))
                                            (license_branding (guild_License self))"
    and len: "KEY_MIN_LENGTH \<le> length new_key"
    and unused: "new_key \<notin> set (map key (licenses d))"
    and len_self: "KEY_MIN_LENGTH \<le> length (key self)"
  shows "\<exists>new d'. regenerate generate_single self d = (Inr new, d')
           \<and> key new = new_key \<and> key new \<noteq> key self \<and> inactive new = False
           \<and> guild_License new = guild_License self
           \<and> role_packet_License new = role_packet_License self
           \<and> find (\<lambda>row. key row = key self) (licenses d') = Some (self\<lparr>inactive := True\<rparr>)
           \<and> find (\<lambda>row. key row = key new) (licenses d') = Some new
           \<and> reminder_activations new \<notin> fst ` set (reminders_settings d)
           \<and> map_of (reminders_settings d') (reminder_activations new) = Some ra
           \<and> map_of (reminders_settings d') (reminder_activations self) = Some ra"
proof -
  define n where "n = fresh_id (reminders_settings d)"
  define new where "new = \<lparr>key = new_key, guild_License = guild_License self,
                     reminder_activations = n, inactive = False,
                     role_packet_License = role_packet_License self\<rparr>"
  define d1 where "d1 = d\<lparr>reminders_settings := reminders_settings d @ [(n, ra)]\<rparr>"
  define d2 where "d2 = d1\<lparr>licenses := licenses d @ [new]\<rparr>"
  define d3 where "d3 = d2\<lparr>licenses := map (\<lambda>row. if key row = key self
                                             then self\<lparr>inactive := True\<rparr> else row)
                                   (licenses d @ [new])\<rparr>"
  have run: "regenerate_run generate_single self d = (Inr new, [d1, d2, d3])"
    using ra valid new_key len unused len_self n_def new_def d1_def d2_def d3_def
    by (rule regenerate_run_success)
  then have result: "regenerate generate_single self d = (Inr new, d3)"
    by (simp add: regenerate_def)
  have key_new: "key new = new_key"
    by (simp add: new_def)
  have distinct_keys: "key new \<noteq> key self"
    using stored unused key_new by auto
  have self_in: "key self \<in> set (map key (licenses d @ [new]))"
    using stored by simp
  have ls3: "licenses d3 = map (\<lambda>row. if key row = key self
                                       then self\<lparr>inactive := True\<rparr> else row)
                               (licenses d @ [new])"
    by (simp add: d3_def)
  have "find (\<lambda>row. key row = key self) (licenses d3)
          = (if key self \<in> set (map key (licenses d @ [new]))
             then Some (self\<lparr>inactive := True\<rparr>) else None)"
    unfolding ls3 by (rule find_key_replaced) simp
  with self_in
  have old_row: "find (\<lambda>row. key row = key self) (licenses d3) = Some (self\<lparr>inactive := True\<rparr>)"
    by (simp only: if_True)
  have "find (\<lambda>row. key row = key new) (licenses d3)
          = find (\<lambda>row. key row = key new) (licenses d @ [new])"
    unfolding ls3 using distinct_keys by (rule find_key_other) simp
  also have "\<dots> = Some new"
  proof (rule find_key_appended)
    show "key new \<notin> set (map key (licenses d))"
      using unused key_new by simp
  qed
  finally have new_row: "find (\<lambda>row. key row = key new) (licenses d3) = Some new" .
  have fresh: "reminder_activations new \<notin> fst ` set (reminders_settings d)"
    using fresh_id_notin [of "reminders_settings d"] by (simp add: new_def n_def)
  have rs: "reminders_settings d3 = reminders_settings d @ [(fresh_id (reminders_settings d), ra)]"
    by (simp add: d3_def d2_def d1_def n_def)
  have clone: "map_of (reminders_settings d3) (reminder_activations new) = Some ra"
    unfolding rs by (simp add: new_def n_def map_of_insert_fresh del: map_of_append)
  have orig: "map_of (reminders_settings d3) (reminder_activations self) = Some ra"
    unfolding rs using ra by (rule map_of_insert_old)
  from result key_new distinct_keys old_row new_row fresh clone orig show ?thesis
    by (simp add: new_def)
qed


theorem regenerate_replaces_license_witness:
  "regenerate (fixed_key ''MNOP-QRST-UVWX'') example_license example_db
     = (Inr example_new_license,
        \<lparr>reminders_settings = [(1, ReminderActivations_defaults), (2, example_reminders),
                                (3, example_reminders)],
         licenses = [example_license\<lparr>inactive := True\<rparr>, example_new_license]\<rparr>)
   \<and> example_license \<in> set (licenses example_db)
   \<and> inactive example_license = False"
proof -
  have h: "example_license \<in> set (licenses example_db)"
    "map_of (reminders_settings example_db) (reminder_activations example_license)
       = Some example_reminders"
    "''MNOP-QRST-UVWX'' = fixed_key ''MNOP-QRST-UVWX''
        (custom_license_format (guild_License example_license))
        (license_branding (guild_License example_license))"
    "KEY_MIN_LENGTH \<le> length ''MNOP-QRST-UVWX''"
    "''MNOP-QRST-UVWX'' \<notin> set (map key (licenses example_db))"
    "KEY_MIN_LENGTH \<le> length (key example_license)"
    by (simp_all add: example_db_def example_license_def fixed_key_def KEY_MIN_LENGTH_def)
  from regenerate_replaces_license
         [where self = example_license and d = example_db and ra = example_reminders
            and new_key = "''MNOP-QRST-UVWX''"
            and generate_single = "fixed_key ''MNOP-QRST-UVWX''",
          OF h(1) h(2) example_reminders_valid h(3) h(4) h(5) h(6)]
  show ?thesis
    by (simp add: regenerate_def example_run h(1)) (simp add: example_license_def)
qed

text \<open>
  C4, as claimed: no state between the writes of a regeneration shows the original and the
  replacement both active. The new license is saved before the original is deactivated: in
  the state after the second write both are active.
\<close>

theorem regenerate_both_active_counterexample:
  "fst (regenerate_run (fixed_key ''MNOP-QRST-UVWX'') example_license example_db)
     = Inr example_new_license
   \<and> license_inactive
        (snd (regenerate_run (fixed_key ''MNOP-QRST-UVWX'') example_license example_db) ! 1)
        (key example_license) = Some False
   \<and> license_inactive
        (snd (regenerate_run (fixed_key ''MNOP-QRST-UVWX'') example_license example_db) ! 1)
        (key example_new_license) = Some False"
  unfolding example_run
  by (simp add: license_inactive_def example_license_def example_new_license_def)

text \<open>
  C4, amended: a regeneration of a stored, active license makes three writes; no state after
  any of them shows both licenses inactive; the state after the second write shows both
  active, and only the state after the third shows the original inactive and the replacement
  active.
\<close>

theorem regenerate_not_atomic:
  assumes active: "license_inactive d (key self) = Some False"
    and ra: "map_of (reminders_settings d) (reminder_activations self) = Some ra"
    and valid: "ReminderActivations_post_save ra = Inr ()"
    and new_key: "new_key = generate_single (custom_license_format (guild_License self))
                                            (license_branding (guild_License self))"
    and len: "KEY_MIN_LENGTH \<le> length new_key"
    and unused: "new_key \<notin> set (map key (licenses d))"
    and len_self: "KEY_MIN_LENGTH \<le> length (key self)"
  shows "\<exists>new states. regenerate_run generate_single self d = (Inr new, states)
           \<and> length states = 3
           \<and> (\<forall>st \<in> set states. \<not> (license_inactive st (key self) = Some True
                                      \<and> license_inactive st (key new) = Some True))
           \<and> license_inactive (states ! 1) (key self) = Some False
           \<and> license_inactive (states ! 1) (key new) = Some False
           \<and> license_inactive (states ! 2) (key self) = Some True
           \<and> license_inactive (states ! 2) (key new) = Some False"
proof -
  define n where "n = fresh_id (reminders_settings d)"
  define new where "new = \<lparr>key = new_key, guild_License = guild_License self,
                     reminder_activations = n, inactive = False,
                     role_packet_License = role_packet_License self\<rparr>"
  define d1 where "d1 = d\<lparr>reminders_settings := reminders_settings d @ [(n, ra)]\<rparr>"
  define d2 where "d2 = d1\<lparr>licenses := licenses d @ [new]\<rparr>"
  define d3 where "d3 = d2\<lparr>licenses := map (\<lambda>row. if key row = key self
                                             then self\<lparr>inactive := True\<rparr> else row)
                                   (licenses d @ [new])\<rparr>"
  have run: "regenerate_run generate_single self d = (Inr new, [d1, d2, d3])"
    using ra valid new_key len unused len_self n_def new_def d1_def d2_def d3_def
    by (rule regenerate_run_success)
  have key_new: "key new = new_key" and active_new: "inactive new = False"
    by (simp_all add: new_def)
  have stored: "key self \<in> set (map key (licenses d))"
    using active by (rule license_inactive_stored)
  have distinct_keys: "key new \<noteq> key self"
    using stored unused key_new by auto
  have absent: "license_inactive d1 (key new) = None"
    using unused by (simp add: license_inactive_def d1_def key_new find_key_None)
  have "find (\<lambda>row. key row = key new) (licenses d @ [new]) = Some new"
  proof (rule find_key_appended)
    show "key new \<notin> set (map key (licenses d))"
      using unused key_new by simp
  qed
  then have new2: "license_inactive d2 (key new) = Some False"
    by (simp add: license_inactive_def d2_def active_new)
  have "find (\<lambda>row. key row = key self) (licenses d @ [new])
          = find (\<lambda>row. key row = key self) (licenses d)"
    using stored by (rule find_key_append_other)
  then have old2: "license_inactive d2 (key self) = Some False"
    using active by (simp add: license_inactive_def d2_def)
  have ls3: "licenses d3 = map (\<lambda>row. if key row = key self
                                       then self\<lparr>inactive := True\<rparr> else row)
                               (licenses d @ [new])"
    by (simp add: d3_def)
  have "find (\<lambda>row. key row = key new) (licenses d3)
          = find (\<lambda>row. key row = key new) (licenses d @ [new])"
    unfolding ls3 using distinct_keys by (rule find_key_other) simp
  with \<open>find (\<lambda>row. key row = key new) (licenses d @ [new]) = Some new\<close>
  have new3: "license_inactive d3 (key new) = Some False"
    by (simp add: license_inactive_def active_new)
  have "find (\<lambda>row. key row = key self) (licenses d3)
          = (if key self \<in> set (map key (licenses d @ [new]))
             then Some (self\<lparr>inactive := True\<rparr>) else None)"
    unfolding ls3 by (rule find_key_replaced) simp
  with stored have old3: "license_inactive d3 (key self) = Some True"
    by (simp add: license_inactive_def)
  from run absent new2 old2 new3 old3 show ?thesis
    by simp
qed


theorem regenerate_not_atomic_witness:
  "length (snd (regenerate_run (fixed_key ''MNOP-QRST-UVWX'') example_license example_db)) = 3
   \<and> license_inactive example_db (key example_license) = Some False
   \<and> license_inactive
        (snd (regenerate_run (fixed_key ''MNOP-QRST-UVWX'') example_license example_db) ! 0)
        (key example_new_license) = None
   \<and> license_inactive
        (snd (regenerate_run (fixed_key ''MNOP-QRST-UVWX'') example_license example_db) ! 2)
        (key example_license) = Some True
   \<and> license_inactive
        (snd (regenerate_run (fixed_key ''MNOP-QRST-UVWX'') example_license example_db) ! 2)
        (key example_new_license) = Some False"
proof -
  have h: "license_inactive example_db (key example_license) = Some False"
    "map_of (reminders_settings example_db) (reminder_activations example_license)
       = Some example_reminders"
    "''MNOP-QRST-UVWX'' = fixed_key ''MNOP-QRST-UVWX''
        (custom_license_format (guild_License example_license))
        (license_branding (guild_License example_license))"
    "KEY_MIN_LENGTH \<le> length ''MNOP-QRST-UVWX''"
    "''MNOP-QRST-UVWX'' \<notin> set (map key (licenses example_db))"
    "KEY_MIN_LENGTH \<le> length (key example_license)"
    by (simp_all add: example_db_def example_license_def fixed_key_def KEY_MIN_LENGTH_def
        license_inactive_def)
  from regenerate_not_atomic
         [where self = example_license and d = example_db and ra = example_reminders
            and new_key = "''MNOP-QRST-UVWX''"
            and generate_single = "fixed_key ''MNOP-QRST-UVWX''",
          OF h(1) h(2) example_reminders_valid h(3) h(4) h(5) h(6)]
  show ?thesis
    unfolding example_run
    by (simp add: h(1)) (simp add: license_inactive_def example_license_def example_new_license_def)
qed


end
